theory Spec2Isabelle
  imports Main
begin

section \<open>JavaScript values\<close>

text \<open>
  The library is JavaScript (\<^verbatim>\<open>src/index.js\<close>). The values it handles are modelled by
  \<open>jsval\<close>: the primitives, \<open>Object\<close> for a plain object that is only looked at from
  outside (its \<^verbatim>\<open>typeof\<close>, its truthiness, its string form \<^verbatim>\<open>[object Object]\<close>), and
  \<open>Member m\<close> for what a property read returns when the name \<open>m\<close> is not a property of the
  object itself but of \<^verbatim>\<open>Object.prototype\<close> (\<^verbatim>\<open>({})['constructor']\<close> is a function).

  Scope of the model: numbers are integers (no NaN, infinity or fraction, and small enough that
  double arithmetic is exact and printing needs no exponent); strings are lists of 8-bit
  characters, so the white space and the line terminators of the language are the ones below
  256; an object is a plain object, given by the map of its own properties, and reads of it
  also find the members that it inherits.
\<close>

datatype jsval =
    Undefined
  | Null
  | Bool bool
  | Num int
  | Str string
  | Object
  | Member string

type_synonym obj = "string \<rightharpoonup> jsval"

text \<open>Errors are values. \<open>TypeError\<close> and \<open>RangeError\<close> are thrown by the library's own
  \<^verbatim>\<open>throw\<close> statements and carry their message; \<open>EngineTypeError\<close> is the TypeError that
  the engine raises itself (a property read on \<^verbatim>\<open>null\<close>, a call of something that is not a
  function), whose message is the engine's.\<close>

datatype error =
    TypeError string
  | RangeError string
  | EngineTypeError

definition typeof :: "jsval \<Rightarrow> string" where
  "typeof v = (case v of
       Undefined \<Rightarrow> ''undefined''
     | Null \<Rightarrow> ''object''
     | Bool b \<Rightarrow> ''boolean''
     | Num n \<Rightarrow> ''number''
     | Str s \<Rightarrow> ''string''
     | Object \<Rightarrow> ''object''
     | Member m \<Rightarrow> (if m = ''__proto__'' then ''object'' else ''function''))"

text \<open>\<^verbatim>\<open>Boolean(v)\<close>, and the test that \<^verbatim>\<open>||\<close> and \<^verbatim>\<open>&&\<close> make on their left operand.\<close>

definition truthy :: "jsval \<Rightarrow> bool" where
  "truthy v = (case v of
       Undefined \<Rightarrow> False
     | Null \<Rightarrow> False
     | Bool b \<Rightarrow> b
     | Num n \<Rightarrow> n \<noteq> 0
     | Str s \<Rightarrow> s \<noteq> []
     | Object \<Rightarrow> True
     | Member m \<Rightarrow> True)"

text \<open>\<^verbatim>\<open>a || b\<close>\<close>

definition jsOr :: "jsval \<Rightarrow> jsval \<Rightarrow> jsval" where
  "jsOr a b = (if truthy a then a else b)"

fun showNat :: "nat \<Rightarrow> string" where
  "showNat n =
     (if n < 10 then [''0123456789'' ! n]
      else showNat (n div 10) @ [''0123456789'' ! (n mod 10)])"

declare showNat.simps [simp del]

definition showInt :: "int \<Rightarrow> string" where
  "showInt i = (if i < 0 then CHR ''-'' # showNat (nat (- i)) else showNat (nat i))"

text \<open>The names that every plain object inherits from \<^verbatim>\<open>Object.prototype\<close>.\<close>

definition objectPrototypeNames :: "string list" where
  "objectPrototypeNames =
     [''constructor'', ''hasOwnProperty'', ''isPrototypeOf'', ''propertyIsEnumerable'',
      ''toLocaleString'', ''toString'', ''valueOf'', ''__defineGetter__'', ''__defineSetter__'',
      ''__lookupGetter__'', ''__lookupSetter__'', ''__proto__'']"

text \<open>How Node prints an inherited member: \<^verbatim>\<open>__proto__\<close> reads the prototype object, the
  others are native functions.\<close>

definition memberText :: "string \<Rightarrow> string" where
  "memberText m =
     (if m = ''__proto__'' then ''[object Object]''
      else ''function '' @ (if m = ''constructor'' then ''Object'' else m)
             @ ''() { [native code] }'')"

text \<open>The conversion to a string that a property key and a replacement value go through.\<close>

definition toStr :: "jsval \<Rightarrow> string" where
  "toStr v = (case v of
       Undefined \<Rightarrow> ''undefined''
     | Null \<Rightarrow> ''null''
     | Bool b \<Rightarrow> (if b then ''true'' else ''false'')
     | Num n \<Rightarrow> showInt n
     | Str s \<Rightarrow> s
     | Object \<Rightarrow> ''[object Object]''
     | Member m \<Rightarrow> memberText m)"

text \<open>\<^verbatim>\<open>o[k]\<close> on a plain object: the object's own property, else the inherited member, else
  \<^verbatim>\<open>undefined\<close>.\<close>

definition getProp :: "obj \<Rightarrow> string \<Rightarrow> jsval" where
  "getProp ob k =
     (case ob k of
        Some v \<Rightarrow> v
      | None \<Rightarrow> if k \<in> set objectPrototypeNames then Member k else Undefined)"

text \<open>\<^verbatim>\<open>o[k] = v\<close> on a plain object. Assigning a string to \<^verbatim>\<open>__proto__\<close> goes to the
  inherited setter, which ignores a value that is not an object, and creates no property.\<close>

definition setProp :: "obj \<Rightarrow> string \<Rightarrow> jsval \<Rightarrow> obj" where
  "setProp ob k v = (if k = ''__proto__'' then ob else ob(k \<mapsto> v))"

section \<open>Pluralization methods\<close>

text \<open>The string that separates the different phrase possibilities.\<close>

definition delimiter :: string where
  "delimiter = ''||||''"

text \<open>\<^verbatim>\<open>a % b\<close> on integers: the remainder has the sign of the dividend.\<close>

definition jsRem :: "int \<Rightarrow> int \<Rightarrow> int" where
  "jsRem a b = sgn a * (\<bar>a\<bar> mod \<bar>b\<bar>)"

definition arabicPluralGroups :: "int \<Rightarrow> int" where
  "arabicPluralGroups n =
     (if n < 3 then n
      else let lastTwo = jsRem n 100 in
        if lastTwo \<ge> 3 \<and> lastTwo \<le> 10 then 3
        else if lastTwo \<ge> 11 then 4 else 5)"

definition chinesePluralGroups :: "int \<Rightarrow> int" where
  "chinesePluralGroups n = 0"

definition czechPluralGroups :: "int \<Rightarrow> int" where
  "czechPluralGroups n =
     (if n = 1 then 0
      else if n \<ge> 2 \<and> n \<le> 4 then 1 else 2)"

definition frenchPluralGroups :: "int \<Rightarrow> int" where
  "frenchPluralGroups n = (if n > 1 then 1 else 0)"

definition germanPluralGroups :: "int \<Rightarrow> int" where
  "germanPluralGroups n = (if n = 1 then 0 else 1)"

definition icelandicPluralGroups :: "int \<Rightarrow> int" where
  "icelandicPluralGroups n =
     (if jsRem n 10 \<noteq> 1 \<or> jsRem n 100 = 11 then 1 else 0)"

definition lithuanianPluralGroups :: "int \<Rightarrow> int" where
  "lithuanianPluralGroups n =
     (let lastTwo = jsRem n 100; lastOne = jsRem lastTwo 10 in
      if lastOne = 1 \<and> lastTwo \<noteq> 11 then 0
      else if lastOne \<ge> 2 \<and> lastOne \<le> 9 \<and> (lastTwo < 11 \<or> lastTwo > 19) then 1 else 2)"

definition polistPluralGroups :: "int \<Rightarrow> int" where
  "polistPluralGroups n =
     (if n = 1 then 0
      else let lastTwo = jsRem n 100; lastOne = jsRem lastTwo 10 in
        if lastOne \<ge> 2 \<and> lastOne \<le> 4 \<and> (lastTwo < 10 \<or> lastTwo \<ge> 20) then 1 else 2)"

definition russianPluralGroups :: "int \<Rightarrow> int" where
  "russianPluralGroups n =
     (let lastTwo = jsRem n 100; lastOne = jsRem lastTwo 10 in
      if lastTwo \<noteq> 11 \<and> lastOne = 1 then 0
      else if lastOne \<ge> 2 \<and> lastOne \<le> 4 \<and> \<not> (lastTwo \<ge> 12 \<and> lastTwo \<le> 14) then 1 else 2)"

definition slovenianPluralGroups :: "int \<Rightarrow> int" where
  "slovenianPluralGroups n =
     (let r = jsRem n 100 in
      if r = 1 then 0
      else if r = 2 then 1
      else if r = 3 \<or> r = 4 then 2
      else 3)"

text \<open>A rule set: \<open>pluralTypes\<close> maps a family name to its function,
  \<open>pluralTypeToLanguages\<close> lists, in the order in which \<^verbatim>\<open>Object.entries\<close> enumerates
  them, each family name with its array of locales.\<close>

record pluralRules =
  pluralTypes :: "string \<rightharpoonup> (int \<Rightarrow> int)"
  pluralTypeToLanguages :: "(string \<times> string list) list"

definition defaultPluralRules :: pluralRules where
  "defaultPluralRules = \<lparr>
     pluralTypes = map_of [
       (''arabic'', arabicPluralGroups),
       (''bosnian_serbian'', russianPluralGroups),
       (''chinese'', chinesePluralGroups),
       (''czech'', czechPluralGroups),
       (''croatian'', russianPluralGroups),
       (''french'', frenchPluralGroups),
       (''german'', germanPluralGroups),
       (''icelandic'', icelandicPluralGroups),
       (''lithuanian'', lithuanianPluralGroups),
       (''polish'', polistPluralGroups),
       (''russian'', russianPluralGroups),
       (''slovenian'', slovenianPluralGroups)],
     pluralTypeToLanguages = [
       (''arabic'', [''ar'']),
       (''bosnian_serbian'', [''bs-Latn-BA'', ''bs-Cyrl-BA'', ''srl-RS'', ''sr-RS'']),
       (''chinese'', [''id'', ''id-ID'', ''ja'', ''ko'', ''ko-KR'', ''lo'', ''ms'', ''th'',
                      ''th-TH'', ''zh'']),
       (''croatian'', [''hr'', ''hr-HR'']),
       (''german'', [''fa'', ''da'', ''de'', ''en'', ''es'', ''fi'', ''el'', ''he'', ''hi-IN'',
                     ''hu'', ''hu-HU'', ''it'', ''nl'', ''no'', ''pt'', ''sv'', ''tr'']),
       (''french'', [''fr'', ''tl'', ''pt-br'']),
       (''russian'', [''ru'', ''ru-RU'']),
       (''lithuanian'', [''lt'']),
       (''czech'', [''cs'', ''cs-CZ'', ''sk'']),
       (''polish'', [''pl'']),
       (''icelandic'', [''is'']),
       (''slovenian'', [''sl-SL''])] \<rparr>"

text \<open>\<^verbatim>\<open>langs.filter(Boolean)\<close> drops the empty strings; the \<^verbatim>\<open>reduce\<close> stores the family
  name under every remaining locale, a later store replacing an earlier one.\<close>

definition accumulateToTypeMap :: "obj \<Rightarrow> string \<times> string list \<Rightarrow> obj" where
  "accumulateToTypeMap accumulator entry =
     (case entry of (type, langs) \<Rightarrow>
        if length langs > 0
        then foldl (\<lambda>acc lang. setProp acc lang (Str type))
               accumulator (filter (\<lambda>lang. truthy (Str lang)) langs)
        else accumulator)"

definition langToTypeMap :: "(string \<times> string list) list \<Rightarrow> obj" where
  "langToTypeMap mapping = foldl accumulateToTypeMap Map.empty mapping"

text \<open>\<^verbatim>\<open>locale.split(/-/, 1)[0]\<close>: the part of the locale before its first \<^verbatim>\<open>-\<close>.\<close>

definition languageCode :: "string \<Rightarrow> string" where
  "languageCode locale = takeWhile (\<lambda>c. c \<noteq> CHR ''-'') locale"

definition pluralTypeName :: "pluralRules \<Rightarrow> string \<Rightarrow> jsval" where
  "pluralTypeName rules locale =
     (let langToPluralType = langToTypeMap (pluralTypeToLanguages rules) in
      jsOr (getProp langToPluralType locale)
        (jsOr (getProp langToPluralType (languageCode locale))
           (getProp langToPluralType ''en'')))"

text \<open>\<^verbatim>\<open>pluralRules.pluralTypes[name](count)\<close>: the name is converted to a property key, and
  calling what is not there raises the engine's TypeError. The table is read by its own
  properties: a rule set whose map names a family after a method of \<^verbatim>\<open>Object.prototype\<close>
  without defining a function of that name is outside the model.\<close>

definition pluralTypeIndex :: "pluralRules \<Rightarrow> string \<Rightarrow> int \<Rightarrow> error + int" where
  "pluralTypeIndex rules locale count =
     (case pluralTypes rules (toStr (pluralTypeName rules locale)) of
        Some f \<Rightarrow> Inr (f count)
      | None \<Rightarrow> Inl EngineTypeError)"

text \<open>The flattened map as the specification words it, to compare \<open>langToTypeMap\<close> with: a
  locale has the family whose array lists it, and the last such family of the table when
  several do.\<close>

definition spec_flattened :: "(string \<times> string list) list \<Rightarrow> string \<Rightarrow> string option" where
  "spec_flattened mapping lang =
     (let listing = filter (\<lambda>(type, langs). lang \<in> set langs) mapping in
      if listing = [] then None else Some (fst (last listing)))"

text \<open>The resolution as the specification words it: the exact match in the flattened map,
  else the match of the part before the first \<^verbatim>\<open>-\<close>, else what \<^verbatim>\<open>en\<close> maps to.\<close>

definition spec_resolveFamily :: "(string \<times> string list) list \<Rightarrow> string \<Rightarrow> string option" where
  "spec_resolveFamily mapping locale =
     (case spec_flattened mapping locale of
        Some type \<Rightarrow> Some type
      | None \<Rightarrow>
          (case spec_flattened mapping (languageCode locale) of
             Some type \<Rightarrow> Some type
           | None \<Rightarrow> spec_flattened mapping ''en''))"

section \<open>The token matcher\<close>

text \<open>The regular expression that \<^verbatim>\<open>constructTokenRegex\<close> builds has the source
  \<^verbatim>\<open>escape(prefix) + '(.*?)' + escape(suffix)\<close> and the flag \<^verbatim>\<open>g\<close>. As \<^verbatim>\<open>escape\<close> puts a
  backslash before every character that the pattern language gives a meaning to, the
  expression matches the prefix literally, then the shortest run of characters other than line
  terminators, then the suffix literally; it is represented by the two strings.\<close>

datatype tokenRegex = TokenRegex string string

definition defaultTokenRegex :: tokenRegex where
  "defaultTokenRegex = TokenRegex ''%{'' ''}''"

text \<open>The argument is \<^verbatim>\<open>undefined\<close> (\<open>None\<close>) or a plain object. A field that is
  \<^verbatim>\<open>undefined\<close> takes its default; \<^verbatim>\<open>escape\<close> calls \<^verbatim>\<open>token.replace\<close>, which only a string
  has.\<close>

definition constructTokenRegex :: "obj option \<Rightarrow> error + tokenRegex" where
  "constructTokenRegex options0 =
     (let options = (case options0 of None \<Rightarrow> Map.empty | Some ob \<Rightarrow> ob);
          prefix = (case getProp options ''prefix'' of Undefined \<Rightarrow> Str ''%{'' | v \<Rightarrow> v);
          suffix = (case getProp options ''suffix'' of Undefined \<Rightarrow> Str ''}'' | v \<Rightarrow> v)
      in if prefix = Str delimiter \<or> suffix = Str delimiter
         then Inl (RangeError
                (CHR 0x22 # delimiter @ CHR 0x22 # '' token is reserved for pluralization''))
         else (case (prefix, suffix) of
                 (Str p, Str s) \<Rightarrow> Inr (TokenRegex p s)
               | _ \<Rightarrow> Inl EngineTypeError))"

section \<open>Strings\<close>

text \<open>\<^verbatim>\<open>s.split(delimiter)\<close>: the pieces of \<open>s\<close> between the occurrences of the delimiter,
  found from left to right without overlap. The first argument holds, reversed, the piece
  being read.\<close>

function splitFrom :: "string \<Rightarrow> string \<Rightarrow> string list" where
  "splitFrom acc [] = [rev acc]"
| "splitFrom acc (c # cs) =
     (if take (length delimiter) (c # cs) = delimiter
      then rev acc # splitFrom [] (drop (length delimiter) (c # cs))
      else splitFrom (c # acc) cs)"
  by pat_completeness auto
termination
  by (relation "measure (\<lambda>(acc, s). length s)") (auto simp: delimiter_def)

definition jsSplit :: "string \<Rightarrow> string list" where
  "jsSplit s = splitFrom [] s"

text \<open>The white space and line terminators that \<^verbatim>\<open>trim\<close> removes: tab, line feed, vertical
  tab, form feed, carriage return, space, no-break space.\<close>

definition isWhiteSpace :: "char \<Rightarrow> bool" where
  "isWhiteSpace c =
     (c \<in> set [CHR 0x09, CHR 0x0A, CHR 0x0B, CHR 0x0C, CHR 0x0D, CHR 0x20, CHR 0xA0])"

definition trim :: "string \<Rightarrow> string" where
  "trim s = rev (dropWhile isWhiteSpace (rev (dropWhile isWhiteSpace s)))"

text \<open>\<^verbatim>\<open>texts[i]\<close> on an array, \<open>None\<close> for \<^verbatim>\<open>undefined\<close>.\<close>

definition at :: "string list \<Rightarrow> int \<Rightarrow> string option" where
  "at texts i = (if 0 \<le> i \<and> i < int (length texts) then Some (texts ! nat i) else None)"

section \<open>Interpolation\<close>

definition isLineTerminator :: "char \<Rightarrow> bool" where
  "isLineTerminator c = (c = CHR 0x0A \<or> c = CHR 0x0D)"

text \<open>The lazy group followed by the suffix: the suffix is tried where the run stands, and
  the run grows by one character, which must not be a line terminator, when the suffix is not
  there. The result is the captured run and what follows the suffix.\<close>

fun lazyRun :: "string \<Rightarrow> string \<Rightarrow> string \<Rightarrow> (string \<times> string) option" where
  "lazyRun suf acc [] = (if suf = [] then Some (rev acc, []) else None)"
| "lazyRun suf acc (c # cs) =
     (if take (length suf) (c # cs) = suf then Some (rev acc, drop (length suf) (c # cs))
      else if isLineTerminator c then None
      else lazyRun suf (c # acc) cs)"

text \<open>One attempt of the expression at the start of \<open>s\<close>: the captured name and the length of
  the whole match.\<close>

definition execAt :: "tokenRegex \<Rightarrow> string \<Rightarrow> (string \<times> nat) option" where
  "execAt re s =
     (case re of TokenRegex pre suf \<Rightarrow>
        if take (length pre) s = pre
        then (case lazyRun suf [] (drop (length pre) s) of
                Some (name, rest) \<Rightarrow> Some (name, length pre + length name + length suf)
              | None \<Rightarrow> None)
        else None)"

text \<open>The \<^verbatim>\<open>replacer\<close> closure of \<^verbatim>\<open>transformPhrase\<close>; \<^verbatim>\<open>replace\<close> converts what it returns
  to a string.\<close>

definition replacer :: "obj \<Rightarrow> string \<Rightarrow> string \<Rightarrow> string" where
  "replacer options expression argument =
     (let replacement = getProp options argument in
      if typeof replacement = ''undefined'' then expression else toStr replacement)"

lemma lazyRun_length:
  "lazyRun suf acc s = Some (name, rest) \<Longrightarrow>
     length name + length suf + length rest = length acc + length s"
proof (induction suf acc s rule: lazyRun.induct)
  case (1 suf acc)
  then show ?case by (auto split: if_splits)
next
  case (2 suf acc c cs)
  show ?case
  proof (cases "take (length suf) (c # cs) = suf")
    case True
    then have "length (take (length suf) (c # cs)) = length suf"
      by simp
    then have "length suf \<le> length (c # cs)"
      by (simp del: take_Suc_Cons)
    with True "2.prems" show ?thesis by auto
  next
    case False
    with "2.prems" have nl: "\<not> isLineTerminator c" and
        r: "lazyRun suf (c # acc) cs = Some (name, rest)"
      by (auto split: if_splits)
    from "2.IH" [OF False nl r] show ?thesis by simp
  qed
qed

lemma execAt_length: "execAt re s = Some (name, len) \<Longrightarrow> len \<le> length s"
proof -
  assume a: "execAt re s = Some (name, len)"
  obtain pre suf where re: "re = TokenRegex pre suf" by (cases re)
  from a re have p: "take (length pre) s = pre"
    by (auto simp: execAt_def split: if_splits)
  from a re p obtain rest where
      l: "lazyRun suf [] (drop (length pre) s) = Some (name, rest)"
      and len: "len = length pre + length name + length suf"
    by (auto simp: execAt_def split: option.splits)
  from p have "length (take (length pre) s) = length pre"
    by simp
  then have "length pre \<le> length s"
    by simp
  with lazyRun_length [OF l] len show ?thesis by simp
qed

text \<open>\<^verbatim>\<open>s.replace(tokenRegex, replacer)\<close> with the flag \<^verbatim>\<open>g\<close>: the matches are looked for from
  left to right; a match is replaced and the search goes on behind it; after an empty match,
  and where nothing matches, the next character is copied and the search goes on behind
  it.\<close>

function replaceAll :: "tokenRegex \<Rightarrow> obj \<Rightarrow> string \<Rightarrow> string" where
  "replaceAll re options s =
     (case execAt re s of
        Some (argument, len) \<Rightarrow>
          if len = 0
          then replacer options [] argument
                 @ (case s of [] \<Rightarrow> [] | c # cs \<Rightarrow> c # replaceAll re options cs)
          else replacer options (take len s) argument @ replaceAll re options (drop len s)
      | None \<Rightarrow> (case s of [] \<Rightarrow> [] | c # cs \<Rightarrow> c # replaceAll re options cs))"
  by pat_completeness auto
termination
proof (relation "measure (\<lambda>(re, options, s). length s)")
  fix re :: tokenRegex and options :: obj and s :: string
    and x2 :: "string \<times> nat" and argument :: string and len :: nat
  assume "execAt re s = Some x2" and "(argument, len) = x2" and "len \<noteq> 0"
  then have "len \<le> length s" "0 < len"
    using execAt_length [of re s argument len] by auto
  then show "((re, options, drop len s), re, options, s)
      \<in> measure (\<lambda>(re, options, s). length s)"
    by simp
qed auto

declare replaceAll.simps [simp del]

section \<open>The phrase transformer\<close>

text \<open>The second argument of \<^verbatim>\<open>transformPhrase\<close> and of \<^verbatim>\<open>t\<close>: \<^verbatim>\<open>undefined\<close>, \<^verbatim>\<open>null\<close>,
  a number, or a plain object.\<close>

datatype substitutions =
    SUndefined
  | SNull
  | SNumber int
  | SObject obj

text \<open>Lines 417 to 419: a number stands for an object with the one property
  \<^verbatim>\<open>smart_count\<close>. \<open>None\<close> is for \<^verbatim>\<open>undefined\<close> and \<^verbatim>\<open>null\<close>, which have no properties
  to read.\<close>

definition toOptions :: "substitutions \<Rightarrow> obj option" where
  "toOptions substitutions =
     (case substitutions of
        SUndefined \<Rightarrow> None
      | SNull \<Rightarrow> None
      | SNumber n \<Rightarrow> Some [''smart_count'' \<mapsto> Num n]
      | SObject ob \<Rightarrow> Some ob)"

text \<open>Lines 425 to 428: the plural form is selected only when \<^verbatim>\<open>smart_count\<close> is a number
  and the phrase is not the empty string.\<close>

definition selectPluralForm :: "pluralRules \<Rightarrow> string \<Rightarrow> jsval \<Rightarrow> string \<Rightarrow> error + string" where
  "selectPluralForm rules locale smartCount result =
     (case smartCount of
        Num n \<Rightarrow>
          if result \<noteq> [] then
            (let texts = jsSplit result in
             case pluralTypeIndex rules locale n of
               Inl e \<Rightarrow> Inl e
             | Inr i \<Rightarrow>
                 (case (case at texts i of
                          Some text \<Rightarrow> if text \<noteq> [] then Some text else at texts 0
                        | None \<Rightarrow> at texts 0) of
                    Some text \<Rightarrow> Inr (trim text)
                  | None \<Rightarrow> Inl EngineTypeError))
          else Inr result
      | _ \<Rightarrow> Inr result)"

definition transformPhrase ::
  "jsval \<Rightarrow> substitutions \<Rightarrow> string option \<Rightarrow> tokenRegex option \<Rightarrow> pluralRules option
     \<Rightarrow> error + string" where
  "transformPhrase phrase substitutions locale0 tokenRegex0 pluralRules0 =
     (let locale = (case locale0 of None \<Rightarrow> ''en'' | Some l \<Rightarrow> l);
          re = (case tokenRegex0 of None \<Rightarrow> defaultTokenRegex | Some r \<Rightarrow> r);
          rules = (case pluralRules0 of None \<Rightarrow> defaultPluralRules | Some r \<Rightarrow> r)
      in case phrase of
           Str p \<Rightarrow>
             (case substitutions of
                SUndefined \<Rightarrow> Inr p
              | _ \<Rightarrow>
                  (case toOptions substitutions of
                     None \<Rightarrow> Inl EngineTypeError
                   | Some options \<Rightarrow>
                       (let smartCount = getProp options ''smart_count'' in
                        case selectPluralForm rules locale smartCount p of
                          Inl e \<Rightarrow> Inl e
                        | Inr result \<Rightarrow> Inr (replaceAll re options result))))
         | _ \<Rightarrow> Inl (TypeError ''Polyglot.transformPhrase expects argument #1 to be string''))"

section \<open>The Polyglot class\<close>

type_synonym handler =
  "string \<Rightarrow> substitutions \<Rightarrow> string \<Rightarrow> tokenRegex \<Rightarrow> pluralRules \<Rightarrow> error + jsval"

record polyglot =
  phrases :: obj
  currentLocale :: string
  onMissingKey :: "handler option"
  tokenRegex :: tokenRegex
  pluralRules :: pluralRules

text \<open>\<^verbatim>\<open>options._\<close>: a property read, which fails on \<^verbatim>\<open>null\<close> and finds nothing on a
  number.\<close>

definition defaultPhrase :: "substitutions \<Rightarrow> error + jsval" where
  "defaultPhrase options =
     (case options of
        SUndefined \<Rightarrow> Inl EngineTypeError
      | SNull \<Rightarrow> Inl EngineTypeError
      | SNumber n \<Rightarrow> Inr Undefined
      | SObject ob \<Rightarrow> Inr (getProp ob ''_''))"

text \<open>\<^verbatim>\<open>t(key, options)\<close>. The result comes with the messages passed to \<^verbatim>\<open>this.warn\<close>. A
  phrase that was found goes through \<^verbatim>\<open>transformPhrase\<close> (the last \<^verbatim>\<open>if\<close> of the method);
  otherwise the result is the handler's, or the key.\<close>

definition Polyglot_t :: "polyglot \<Rightarrow> string \<Rightarrow> substitutions \<Rightarrow> (error + jsval) \<times> string list" where
  "Polyglot_t this key options0 =
     (let options = (case options0 of SUndefined \<Rightarrow> SObject Map.empty | _ \<Rightarrow> options0);
          transform = (\<lambda>phrase.
            case transformPhrase phrase options (Some (currentLocale this))
                   (Some (tokenRegex this)) (Some (pluralRules this)) of
              Inl e \<Rightarrow> Inl e
            | Inr s \<Rightarrow> Inr (Str s))
      in if typeof (getProp (phrases this) key) = ''string''
         then (transform (getProp (phrases this) key), [])
         else (case defaultPhrase options of
                 Inl e \<Rightarrow> (Inl e, [])
               | Inr d \<Rightarrow>
                   if typeof d = ''string'' then (transform d, [])
                   else (case onMissingKey this of
                           Some h \<Rightarrow>
                             (h key options (currentLocale this) (tokenRegex this)
                                (pluralRules this), [])
                         | None \<Rightarrow>
                             (Inr (Str key),
                              [''Missing translation for key: '' @ CHR 0x22 # key @ [CHR 0x22]]))))"

text \<open>\<^verbatim>\<open>has(key)\<close>\<close>

definition Polyglot_has :: "polyglot \<Rightarrow> string \<Rightarrow> bool" where
  "Polyglot_has this key = truthy (getProp (phrases this) key)"

section \<open>Properties of the string operations\<close>

text \<open>The pieces of \<open>jsSplit\<close>, joined by the delimiter, give the string back, and no piece
  contains the delimiter.\<close>

lemma splitFrom_join:
  "concat (map (\<lambda>text. delimiter @ text) (splitFrom acc s)) = delimiter @ rev acc @ s"
proof (induction acc s rule: splitFrom.induct)
  case (1 acc)
  then show ?case by simp
next
  case (2 acc c cs)
  show ?case
  proof (cases "take (length delimiter) (c # cs) = delimiter")
    case True
    then have "delimiter @ drop (length delimiter) (c # cs) = c # cs"
      by (metis append_take_drop_id)
    with True "2.IH"(1) show ?thesis by simp
  next
    case False
    with "2.IH"(2) show ?thesis by simp
  qed
qed

lemma jsSplit_join: "concat (map (\<lambda>text. delimiter @ text) (jsSplit s)) = delimiter @ s"
  by (simp add: jsSplit_def splitFrom_join)

lemma splitFrom_pieces:
  assumes "\<forall>u v. rev acc @ s = u @ delimiter @ v \<longrightarrow> length acc \<le> length u"
    and "text \<in> set (splitFrom acc s)"
  shows "\<forall>u v. text \<noteq> u @ delimiter @ v"
  using assms
proof (induction acc s rule: splitFrom.induct)
  case (1 acc)
  then have t: "text = rev acc" by simp
  show ?case
  proof (intro allI notI)
    fix u v assume "text = u @ delimiter @ v"
    with t have e: "rev acc @ [] = u @ delimiter @ v" by simp
    with "1.prems"(1) have "length acc \<le> length u" by blast
    moreover from e have "length acc = length u + length delimiter + length v"
      by (metis append_Nil2 length_append length_rev add.assoc)
    ultimately show False by (simp add: delimiter_def)
  qed
next
  case (2 acc c cs)
  show ?case
  proof (cases "take (length delimiter) (c # cs) = delimiter")
    case True
    with "2.prems"(2) consider "text = rev acc"
      | "text \<in> set (splitFrom [] (drop (length delimiter) (c # cs)))"
      by auto
    then show ?thesis
    proof cases
      case 1
      show ?thesis
      proof (intro allI notI)
        fix u v assume "text = u @ delimiter @ v"
        with 1 have e: "rev acc @ c # cs = u @ delimiter @ (v @ c # cs)" by simp
        with "2.prems"(1) have "length acc \<le> length u" by blast
        moreover from 1 \<open>text = u @ delimiter @ v\<close>
        have "length acc = length u + length delimiter + length v"
          by (metis length_append length_rev add.assoc)
        ultimately show False by (simp add: delimiter_def)
      qed
    next
      case 2
      then show ?thesis
        using "2.IH"(1) [OF True] by simp
    qed
  next
    case False
    have inv: "\<forall>u v. rev (c # acc) @ cs = u @ delimiter @ v \<longrightarrow> length (c # acc) \<le> length u"
    proof (intro allI impI)
      fix u v assume e: "rev (c # acc) @ cs = u @ delimiter @ v"
      then have e': "rev acc @ c # cs = u @ delimiter @ v" by simp
      with "2.prems"(1) have le: "length acc \<le> length u" by blast
      have "length u \<noteq> length acc"
      proof
        assume "length u = length acc"
        with e' have "c # cs = delimiter @ v"
          by (metis append_eq_append_conv length_rev)
        then have "take (length delimiter) (c # cs) = delimiter" by simp
        with False show False by contradiction
      qed
      with le show "length (c # acc) \<le> length u" by simp
    qed
    from False "2.prems"(2) have "text \<in> set (splitFrom (c # acc) cs)" by simp
    with "2.IH"(2) [OF False inv] show ?thesis by simp
  qed
qed

lemma jsSplit_pieces: "text \<in> set (jsSplit s) \<Longrightarrow> \<forall>u v. text \<noteq> u @ delimiter @ v"
  by (rule splitFrom_pieces [of "[]" s]) (simp_all add: jsSplit_def)

text \<open>\<open>trim\<close> takes white space, and nothing else, from the two ends.\<close>

lemma trim_decompose:
  "\<exists>before after. s = before @ trim s @ after
     \<and> (\<forall>c \<in> set before. isWhiteSpace c) \<and> (\<forall>c \<in> set after. isWhiteSpace c)"
proof -
  let ?m = "dropWhile isWhiteSpace s"
  let ?t = "takeWhile isWhiteSpace (rev ?m)"
  let ?d = "dropWhile isWhiteSpace (rev ?m)"
  have a: "s = takeWhile isWhiteSpace s @ ?m" by simp
  have "rev ?d @ rev ?t = rev (?t @ ?d)" by (simp only: rev_append)
  also have "\<dots> = rev (rev ?m)" by (simp only: takeWhile_dropWhile_id)
  finally have "rev ?d @ rev ?t = ?m" by (simp only: rev_rev_ident)
  then have c: "?m = trim s @ rev ?t"
    by (simp only: trim_def)
  have "takeWhile isWhiteSpace s @ trim s @ rev ?t = takeWhile isWhiteSpace s @ ?m"
    by (simp only: c [symmetric])
  also have "\<dots> = s" by simp
  finally have "s = takeWhile isWhiteSpace s @ trim s @ rev ?t" by (rule sym)
  moreover have "\<forall>c \<in> set (takeWhile isWhiteSpace s). isWhiteSpace c"
    by (auto dest: set_takeWhileD)
  moreover have "\<forall>c \<in> set (rev ?t). isWhiteSpace c"
    by (auto dest: set_takeWhileD)
  ultimately show ?thesis by blast
qed

lemma trim_last: "trim s \<noteq> [] \<Longrightarrow> \<not> isWhiteSpace (last (trim s))"
proof -
  assume n: "trim s \<noteq> []"
  let ?r = "dropWhile isWhiteSpace (rev (dropWhile isWhiteSpace s))"
  from n have r: "?r \<noteq> []" by (simp add: trim_def)
  then have h: "\<not> isWhiteSpace (hd ?r)" by (rule hd_dropWhile)
  have "xs \<noteq> [] \<Longrightarrow> last (rev xs) = hd xs" for xs :: string
    by (cases xs) simp_all
  from this [OF r] have "last (rev ?r) = hd ?r" .
  with h show ?thesis by (simp only: trim_def not_False_eq_True)
qed

text \<open>The model on calls of the repository's tests.\<close>

lemma tests_simple_interpolation:
  "transformPhrase (Str ''%{name} is %{attribute}'')
     (SObject [''name'' \<mapsto> Str ''Polyglot'', ''attribute'' \<mapsto> Str ''awesome'']) None None None
     = Inr ''Polyglot is awesome''"
  by code_simp

lemma tests_missing_keys:
  "transformPhrase (Str ''%{name} is %{attribute}'')
     (SObject [''name'' \<mapsto> Str ''Polyglot'']) None None None = Inr ''Polyglot is %{attribute}''"
  by code_simp

lemma tests_same_prefix_and_suffix:
  "transformPhrase (Str ''Welcome |name|, how are you, |name|?'')
     (SObject [''name'' \<mapsto> Str ''Robert'']) (Some ''en'') (Some (TokenRegex ''|'' ''|'')) None
     = Inr ''Welcome Robert, how are you, Robert?''"
  by code_simp

lemma tests_dollar_signs:
  "transformPhrase (Str ''Hi, %{name}, welcome to %{place}!'')
     (SObject [''name'' \<mapsto> Str ''$abc $0'', ''place'' \<mapsto> Str ''$1 $&'']) (Some ''en'') None None
     = Inr ''Hi, $abc $0, welcome to $1 $&!''"
  by code_simp

lemma tests_undefined_substitution:
  "transformPhrase (Str ''Hi, %{name}, welcome to %{place}!'')
     (SObject [''place'' \<mapsto> Undefined]) (Some ''en'') None None
     = Inr ''Hi, %{name}, welcome to %{place}!''"
  by code_simp

lemma tests_english_zero:
  "transformPhrase (Str ''%{smart_count} Name |||| %{smart_count} Names'')
     (SObject [''smart_count'' \<mapsto> Num 0]) None None None = Inr ''0 Names''"
  by code_simp

lemma tests_english_one:
  "transformPhrase (Str ''%{smart_count} Name |||| %{smart_count} Names'')
     (SObject [''smart_count'' \<mapsto> Num 1]) (Some ''en'') None None = Inr ''1 Name''"
  by code_simp

lemma tests_french_zero:
  "transformPhrase (Str ''%{smart_count} Name |||| %{smart_count} Names'')
     (SObject [''smart_count'' \<mapsto> Num 0]) (Some ''fr'') None None = Inr ''0 Name''"
  by code_simp

lemma tests_number_shortcut:
  "transformPhrase (Str ''%{smart_count} Name |||| %{smart_count} Names'')
     (SNumber 5) (Some ''en'') None None = Inr ''5 Names''"
  by code_simp

section \<open>Properties of the phrase transformer\<close>

lemma typeof_string: "(typeof v = ''string'') = (\<exists>s. v = Str s)"
  by (cases v) (simp_all add: typeof_def)

lemma pluralTypeIndex_error: "pluralTypeIndex rules locale n = Inl e \<Longrightarrow> e = EngineTypeError"
  by (auto simp: pluralTypeIndex_def split: option.splits)

lemma selectPluralForm_error:
  "selectPluralForm rules locale smartCount p = Inl e \<Longrightarrow> e = EngineTypeError"
  by (auto simp: selectPluralForm_def Let_def
      split: jsval.splits if_splits sum.splits option.splits
      dest: pluralTypeIndex_error)

lemma transformPhrase_string_error:
  "transformPhrase (Str p) substitutions locale re rules = Inl e \<Longrightarrow> e = EngineTypeError"
  by (auto simp: transformPhrase_def Let_def
      split: substitutions.splits sum.splits option.splits dest: selectPluralForm_error)

lemma splitFrom_nonempty: "splitFrom acc s \<noteq> []"
  by (induction acc s rule: splitFrom.induct) auto

lemma jsSplit_nonempty: "jsSplit s \<noteq> []"
  by (simp add: jsSplit_def splitFrom_nonempty)

lemma at_0: "at (jsSplit s) 0 = Some (jsSplit s ! 0)"
  using jsSplit_nonempty [of s] by (simp add: at_def)

lemma jsSplit_Nil: "jsSplit [] = [[]]"
  by (simp add: jsSplit_def)

lemma trim_Nil: "trim [] = []"
  by (simp add: trim_def)

text \<open>The plural form that lines 425 to 428 leave in \<^verbatim>\<open>result\<close> when the count is a number
  and the family function returned \<open>i\<close>.\<close>

lemma selectPluralForm_Num:
  assumes "pluralTypeIndex rules locale n = Inr i"
  shows "selectPluralForm rules locale (Num n) p =
    Inr (trim (if 0 \<le> i \<and> i < int (length (jsSplit p)) \<and> jsSplit p ! nat i \<noteq> []
               then jsSplit p ! nat i else jsSplit p ! 0))"
proof (cases "p = []")
  case True
  then show ?thesis
    by (simp add: selectPluralForm_def jsSplit_Nil trim_Nil)
next
  case False
  with assms show ?thesis
    by (auto simp: selectPluralForm_def Let_def at_def jsSplit_nonempty)
qed

lemma default_names:
  "pluralTypeName defaultPluralRules ''ar'' = Str ''arabic''"
  "pluralTypeName defaultPluralRules ''ru'' = Str ''russian''"
  "pluralTypeName defaultPluralRules ''ru-RU'' = Str ''russian''"
  "pluralTypeName defaultPluralRules ''hr'' = Str ''croatian''"
  "pluralTypeName defaultPluralRules ''hr-HR'' = Str ''croatian''"
  "pluralTypeName defaultPluralRules ''bs-Latn-BA'' = Str ''bosnian_serbian''"
  "pluralTypeName defaultPluralRules ''bs-Cyrl-BA'' = Str ''bosnian_serbian''"
  "pluralTypeName defaultPluralRules ''srl-RS'' = Str ''bosnian_serbian''"
  "pluralTypeName defaultPluralRules ''sr-RS'' = Str ''bosnian_serbian''"
  "pluralTypeName defaultPluralRules ''bs'' = Str ''german''"
  "pluralTypeName defaultPluralRules ''sr'' = Str ''german''"
  "pluralTypeName defaultPluralRules ''en'' = Str ''german''"
  "pluralTypeName defaultPluralRules ''fr'' = Str ''french''"
  "pluralTypeName defaultPluralRules ''fr-FR'' = Str ''french''"
  by code_simp+

lemma default_types:
  "pluralTypes defaultPluralRules ''arabic'' = Some arabicPluralGroups"
  "pluralTypes defaultPluralRules ''russian'' = Some russianPluralGroups"
  "pluralTypes defaultPluralRules ''croatian'' = Some russianPluralGroups"
  "pluralTypes defaultPluralRules ''bosnian_serbian'' = Some russianPluralGroups"
  "pluralTypes defaultPluralRules ''german'' = Some germanPluralGroups"
  "pluralTypes defaultPluralRules ''french'' = Some frenchPluralGroups"
  by (simp_all add: defaultPluralRules_def)

lemma default_index:
  "pluralTypeIndex defaultPluralRules ''ar'' n = Inr (arabicPluralGroups n)"
  "pluralTypeIndex defaultPluralRules ''ru'' n = Inr (russianPluralGroups n)"
  "pluralTypeIndex defaultPluralRules ''ru-RU'' n = Inr (russianPluralGroups n)"
  "pluralTypeIndex defaultPluralRules ''hr'' n = Inr (russianPluralGroups n)"
  "pluralTypeIndex defaultPluralRules ''hr-HR'' n = Inr (russianPluralGroups n)"
  "pluralTypeIndex defaultPluralRules ''bs-Latn-BA'' n = Inr (russianPluralGroups n)"
  "pluralTypeIndex defaultPluralRules ''bs-Cyrl-BA'' n = Inr (russianPluralGroups n)"
  "pluralTypeIndex defaultPluralRules ''srl-RS'' n = Inr (russianPluralGroups n)"
  "pluralTypeIndex defaultPluralRules ''sr-RS'' n = Inr (russianPluralGroups n)"
  "pluralTypeIndex defaultPluralRules ''bs'' n = Inr (germanPluralGroups n)"
  "pluralTypeIndex defaultPluralRules ''sr'' n = Inr (germanPluralGroups n)"
  "pluralTypeIndex defaultPluralRules ''en'' n = Inr (germanPluralGroups n)"
  "pluralTypeIndex defaultPluralRules ''fr'' n = Inr (frenchPluralGroups n)"
  "pluralTypeIndex defaultPluralRules ''fr-FR'' n = Inr (frenchPluralGroups n)"
  by (simp_all add: pluralTypeIndex_def default_names toStr_def default_types)


lemma splitFrom_no_delimiter:
  "\<forall>u v. s \<noteq> u @ delimiter @ v \<Longrightarrow> splitFrom acc s = [rev acc @ s]"
proof (induction s arbitrary: acc)
  case Nil
  then show ?case by simp
next
  case (Cons c cs)
  have "take (length delimiter) (c # cs) \<noteq> delimiter"
  proof
    assume "take (length delimiter) (c # cs) = delimiter"
    then have "c # cs = [] @ delimiter @ drop (length delimiter) (c # cs)"
      by (metis append_Nil append_take_drop_id)
    with Cons.prems show False by blast
  qed
  moreover have "\<forall>u v. cs \<noteq> u @ delimiter @ v"
  proof (intro allI notI)
    fix u v assume "cs = u @ delimiter @ v"
    then have "c # cs = (c # u) @ delimiter @ v" by simp
    with Cons.prems show False by blast
  qed
  ultimately show ?case
    using Cons.IH [of "c # acc"] by simp
qed

lemma setProp_foldl:
  "foldl (\<lambda>acc lang. setProp acc lang v) acc langs k
     = (if k \<in> set langs \<and> k \<noteq> ''__proto__'' then Some v else acc k)"
  by (induction langs rule: rev_induct) (auto simp: setProp_def)

lemma accumulateToTypeMap_apply:
  "accumulateToTypeMap acc (type, langs) k
     = (if k \<in> set langs \<and> k \<noteq> [] \<and> k \<noteq> ''__proto__'' then Some (Str type) else acc k)"
  by (auto simp: accumulateToTypeMap_def setProp_foldl truthy_def)

lemma spec_flattened_snoc:
  "spec_flattened (mapping @ [(type, langs)]) k
     = (if k \<in> set langs then Some type else spec_flattened mapping k)"
  by (simp add: spec_flattened_def)

lemma langToTypeMap_spec:
  "lang \<noteq> [] \<Longrightarrow> lang \<noteq> ''__proto__'' \<Longrightarrow>
     langToTypeMap mapping lang = map_option Str (spec_flattened mapping lang)"
proof (induction mapping rule: rev_induct)
  case Nil
  then show ?case by (simp add: langToTypeMap_def spec_flattened_def)
next
  case (snoc e mapping)
  obtain type langs where e: "e = (type, langs)" by (cases e)
  from snoc show ?case
    by (simp add: e langToTypeMap_def accumulateToTypeMap_apply spec_flattened_snoc)
qed

lemma transformPhrase_same_name:
  assumes "pluralTypeName rules l1 = pluralTypeName rules l2"
  shows "transformPhrase phrase substitutions (Some l1) re (Some rules)
       = transformPhrase phrase substitutions (Some l2) re (Some rules)"
proof -
  have idx: "pluralTypeIndex rules l1 n = pluralTypeIndex rules l2 n" for n
    using assms by (simp add: pluralTypeIndex_def)
  have "selectPluralForm rules l1 smartCount p = selectPluralForm rules l2 smartCount p"
    for smartCount p
    by (cases smartCount) (simp_all add: selectPluralForm_def idx)
  then show ?thesis
    by (simp add: transformPhrase_def Let_def
        split: jsval.splits substitutions.splits option.splits)
qed

lemma languageCode_dash: "CHR ''-'' \<notin> set l \<Longrightarrow> languageCode (l @ CHR ''-'' # r) = l"
  by (auto simp: languageCode_def takeWhile_tail)

lemma languageCode_no_dash: "CHR ''-'' \<notin> set l \<Longrightarrow> languageCode l = l"
  by (auto simp: languageCode_def)

lemma empty_replaceAll: "replaceAll re Map.empty [] = []"
proof -
  have r: "replacer Map.empty [] [] = []"
    by (simp add: replacer_def getProp_def objectPrototypeNames_def typeof_def)
  have "execAt re [] = None \<or> execAt re [] = Some ([], 0)"
    by (cases re) (auto simp: execAt_def split: if_splits)
  then show ?thesis
    by (subst replaceAll.simps) (auto simp: r)
qed

lemma transformPhrase_defaults:
  "transformPhrase phrase substitutions None None None
     = transformPhrase phrase substitutions (Some ''en'') (Some defaultTokenRegex)
         (Some defaultPluralRules)"
  by (simp add: transformPhrase_def)

text \<open>
  C3. When the substitutions are absent (\<^verbatim>\<open>undefined\<close>), \<^verbatim>\<open>transformPhrase\<close> returns the
  phrase itself, for every string phrase and every locale (and every token expression and
  rule set): nothing is split, trimmed or replaced.
\<close>

theorem transformPhrase_undefined_substitutions:
  "transformPhrase (Str p) SUndefined locale re rules = Inr p"
  by (simp add: transformPhrase_def)

text \<open>
  C2. \<^verbatim>\<open>transformPhrase\<close> throws its own TypeError, the one of its first statement, exactly
  when the phrase is not a string, whatever the other arguments are; so no call with a string
  phrase raises it. The calls \<^verbatim>\<open>transformPhrase()\<close>, \<^verbatim>\<open>transformPhrase(null)\<close>,
  \<^verbatim>\<open>transformPhrase(32)\<close> and \<^verbatim>\<open>transformPhrase({})\<close> all throw it.
\<close>

theorem transformPhrase_invalid_argument:
  "((transformPhrase phrase substitutions locale re rules
      = Inl (TypeError ''Polyglot.transformPhrase expects argument #1 to be string''))
     = (typeof phrase \<noteq> ''string''))
   \<and> transformPhrase Undefined SUndefined None None None
     = Inl (TypeError ''Polyglot.transformPhrase expects argument #1 to be string'')
   \<and> transformPhrase Null SUndefined None None None
     = Inl (TypeError ''Polyglot.transformPhrase expects argument #1 to be string'')
   \<and> transformPhrase (Num 32) SUndefined None None None
     = Inl (TypeError ''Polyglot.transformPhrase expects argument #1 to be string'')
   \<and> transformPhrase Object SUndefined None None None
     = Inl (TypeError ''Polyglot.transformPhrase expects argument #1 to be string'')"
proof -
  have general: "(transformPhrase phrase substitutions locale re rules
      = Inl (TypeError ''Polyglot.transformPhrase expects argument #1 to be string''))
     = (typeof phrase \<noteq> ''string'')"
  proof (cases "\<exists>p. phrase = Str p")
    case True
    then obtain p where p: "phrase = Str p" by blast
    have "transformPhrase (Str p) substitutions locale re rules
        \<noteq> Inl (TypeError ''Polyglot.transformPhrase expects argument #1 to be string'')"
      using transformPhrase_string_error [of p substitutions] by auto
    with p show ?thesis by (simp add: typeof_string)
  next
    case False
    then have "transformPhrase phrase substitutions locale re rules
        = Inl (TypeError ''Polyglot.transformPhrase expects argument #1 to be string'')"
      by (cases phrase) (simp_all add: transformPhrase_def Let_def)
    with False show ?thesis by (simp add: typeof_string)
  qed
  have examples: "transformPhrase Undefined SUndefined None None None
        = Inl (TypeError ''Polyglot.transformPhrase expects argument #1 to be string'')"
    "transformPhrase Null SUndefined None None None
        = Inl (TypeError ''Polyglot.transformPhrase expects argument #1 to be string'')"
    "transformPhrase (Num 32) SUndefined None None None
        = Inl (TypeError ''Polyglot.transformPhrase expects argument #1 to be string'')"
    "transformPhrase Object SUndefined None None None
        = Inl (TypeError ''Polyglot.transformPhrase expects argument #1 to be string'')"
    by (simp_all add: transformPhrase_def)
  from general examples show ?thesis by blast
qed

section \<open>Properties of the plural rules\<close>



text \<open>
  C7. Under the default rule set the locales \<^verbatim>\<open>ru\<close> and \<^verbatim>\<open>hr\<close>, and the locales with a
  region \<^verbatim>\<open>ru-RU\<close>, \<^verbatim>\<open>hr-HR\<close>, \<^verbatim>\<open>bs-Latn-BA\<close>, \<^verbatim>\<open>bs-Cyrl-BA\<close>, \<^verbatim>\<open>srl-RS\<close> and \<^verbatim>\<open>sr-RS\<close>,
  resolve to the russian-like function for every count. The bare \<^verbatim>\<open>bs\<close> and \<^verbatim>\<open>sr\<close> are not in
  the table: they resolve, through the fallback to \<^verbatim>\<open>en\<close>, to the german-like function.
\<close>

theorem russian_like_locales:
  "pluralTypeIndex defaultPluralRules ''ru'' n = Inr (russianPluralGroups n)
   \<and> pluralTypeIndex defaultPluralRules ''hr'' n = Inr (russianPluralGroups n)
   \<and> pluralTypeIndex defaultPluralRules ''ru-RU'' n = Inr (russianPluralGroups n)
   \<and> pluralTypeIndex defaultPluralRules ''hr-HR'' n = Inr (russianPluralGroups n)
   \<and> pluralTypeIndex defaultPluralRules ''bs-Latn-BA'' n = Inr (russianPluralGroups n)
   \<and> pluralTypeIndex defaultPluralRules ''bs-Cyrl-BA'' n = Inr (russianPluralGroups n)
   \<and> pluralTypeIndex defaultPluralRules ''srl-RS'' n = Inr (russianPluralGroups n)
   \<and> pluralTypeIndex defaultPluralRules ''sr-RS'' n = Inr (russianPluralGroups n)
   \<and> pluralTypeIndex defaultPluralRules ''bs'' n = Inr (germanPluralGroups n)
   \<and> pluralTypeIndex defaultPluralRules ''sr'' n = Inr (germanPluralGroups n)"
  by (simp add: default_index)

text \<open>The claim as it is written fails for \<^verbatim>\<open>bs\<close> and \<^verbatim>\<open>sr\<close>: the count 5 is in the third
  russian-like category, and both locales give the index 1 of the german-like function; on a
  phrase of three forms the second form is selected, not the third.\<close>

theorem russian_like_locales_counterexample:
  "pluralTypeName defaultPluralRules ''bs'' = Str ''german''
   \<and> pluralTypeName defaultPluralRules ''sr'' = Str ''german''
   \<and> russianPluralGroups 5 = 2
   \<and> pluralTypeIndex defaultPluralRules ''bs'' 5 = Inr 1
   \<and> pluralTypeIndex defaultPluralRules ''sr'' 5 = Inr 1
   \<and> pluralTypeIndex defaultPluralRules ''bs'' 5 \<noteq> Inr (russianPluralGroups 5)
   \<and> pluralTypeIndex defaultPluralRules ''sr'' 5 \<noteq> Inr (russianPluralGroups 5)
   \<and> transformPhrase (Str ''one |||| few |||| many'') (SNumber 5) (Some ''bs'') None None
       = Inr ''few''
   \<and> transformPhrase (Str ''one |||| few |||| many'') (SNumber 5) (Some ''ru'') None None
       = Inr ''many''"
proof -
  have r: "russianPluralGroups 5 = 2"
    by (simp add: russianPluralGroups_def jsRem_def)
  have g: "germanPluralGroups 5 = 1"
    by (simp add: germanPluralGroups_def)
  have t1: "transformPhrase (Str ''one |||| few |||| many'') (SNumber 5) (Some ''bs'') None None
       = Inr ''few''"
    by code_simp
  have t2: "transformPhrase (Str ''one |||| few |||| many'') (SNumber 5) (Some ''ru'') None None
       = Inr ''many''"
    by code_simp
  from r g t1 t2 show ?thesis
    by (simp add: default_names default_index)
qed


text \<open>Where the resolution of the specification and \<open>pluralTypeName\<close> agree: on a table
  whose families have a name and whose arrays hold no empty string, for a locale that, like the
  part before its first \<^verbatim>\<open>-\<close>, is not the name of a member of \<^verbatim>\<open>Object.prototype\<close>.\<close>

lemma langToTypeMap_Nil: "langToTypeMap mapping [] = None"
proof (induction mapping rule: rev_induct)
  case Nil
  then show ?case by (simp add: langToTypeMap_def)
next
  case (snoc e mapping)
  obtain type langs where e: "e = (type, langs)" by (cases e)
  from snoc show ?case
    by (simp add: e langToTypeMap_def accumulateToTypeMap_apply)
qed

lemma spec_flattened_family:
  assumes "spec_flattened mapping k = Some type"
  shows "\<exists>langs. (type, langs) \<in> set mapping \<and> k \<in> set langs"
proof -
  let ?listing = "filter (\<lambda>(type, langs). k \<in> set langs) mapping"
  from assms have ne: "?listing \<noteq> []" and t: "type = fst (last ?listing)"
    by (auto simp: spec_flattened_def Let_def split: if_splits)
  from ne have "last ?listing \<in> set ?listing" by (rule last_in_set)
  then have "last ?listing \<in> set mapping" and "k \<in> set (snd (last ?listing))"
    by auto
  with t show ?thesis
    by (metis prod.collapse)
qed

lemma langToTypeMap_read:
  assumes "k \<notin> set objectPrototypeNames"
    and "\<forall>(type, langs) \<in> set mapping. [] \<notin> set langs"
  shows "getProp (langToTypeMap mapping) k
    = (case spec_flattened mapping k of Some type \<Rightarrow> Str type | None \<Rightarrow> Undefined)"
proof (cases "k = []")
  case True
  have "spec_flattened mapping [] = None"
  proof (cases "spec_flattened mapping []")
    case None
    then show ?thesis .
  next
    case (Some type)
    from spec_flattened_family [OF Some] assms(2) show ?thesis by auto
  qed
  with True assms(1) show ?thesis
    by (simp add: getProp_def langToTypeMap_Nil)
next
  case False
  from assms(1) have "k \<noteq> ''__proto__''"
    by (auto simp: objectPrototypeNames_def)
  with False assms(1) show ?thesis
    by (simp add: getProp_def langToTypeMap_spec split: option.splits)
qed

lemma pluralTypeName_refines_spec:
  assumes "locale \<notin> set objectPrototypeNames"
    and "languageCode locale \<notin> set objectPrototypeNames"
    and "\<forall>(type, langs) \<in> set (pluralTypeToLanguages rules). type \<noteq> [] \<and> [] \<notin> set langs"
  shows "pluralTypeName rules locale
    = (case spec_resolveFamily (pluralTypeToLanguages rules) locale of
         Some type \<Rightarrow> Str type
       | None \<Rightarrow> Undefined)"
proof -
  let ?m = "pluralTypeToLanguages rules"
  from assms(3) have langs: "\<forall>(type, langs) \<in> set ?m. [] \<notin> set langs"
    by auto
  have en: "''en'' \<notin> set objectPrototypeNames"
    by (simp add: objectPrototypeNames_def)
  have named: "type \<noteq> []" if "spec_flattened ?m k = Some type" for k type
    using spec_flattened_family [OF that] assms(3) by auto
  show ?thesis
    by (auto simp: pluralTypeName_def Let_def jsOr_def spec_resolveFamily_def truthy_def
        langToTypeMap_read [OF assms(1) langs] langToTypeMap_read [OF assms(2) langs]
        langToTypeMap_read [OF en langs]
        split: option.splits dest: named)
qed

text \<open>Under the default rule set the locales \<^verbatim>\<open>fr-FR\<close> and \<^verbatim>\<open>fr\<close> give the same result of
  \<^verbatim>\<open>transformPhrase\<close>, for every phrase and all substitutions.\<close>

lemma transformPhrase_region_subtag:
  "transformPhrase phrase substitutions (Some ''fr-FR'') re None
     = transformPhrase phrase substitutions (Some ''fr'') re None
   \<and> transformPhrase phrase substitutions (Some ''fr-FR'') re (Some defaultPluralRules)
     = transformPhrase phrase substitutions (Some ''fr'') re (Some defaultPluralRules)"
proof -
  have fr: "transformPhrase phrase substitutions (Some ''fr-FR'') re (Some defaultPluralRules)
       = transformPhrase phrase substitutions (Some ''fr'') re (Some defaultPluralRules)"
    by (rule transformPhrase_same_name) (simp add: default_names)
  have none: "transformPhrase phrase substitutions l re None
       = transformPhrase phrase substitutions l re (Some defaultPluralRules)" for l
    by (simp add: transformPhrase_def)
  from fr show ?thesis
    by (simp add: none)
qed

text \<open>
  C5. The family of a locale is to be the exact match in the flattened map, else the match of
  the part of the locale before its first \<^verbatim>\<open>-\<close>, else the family of \<^verbatim>\<open>en\<close>, for every rule
  set and every locale. \<open>pluralTypeName\<close> reads the flattened object with plain property
  reads, which also find the members that the object inherits, so this does not hold for every
  locale. Under the default rule set the locale \<^verbatim>\<open>constructor\<close> is in no array of the table
  and has no entry in the flattened map, and the resolution above gives it the family of
  \<^verbatim>\<open>en\<close>, which is german. The exact read returns the inherited member instead: no family
  function is found, and \<^verbatim>\<open>transformPhrase\<close> with a count raises the engine's TypeError, where
  the locale \<^verbatim>\<open>en\<close> gives the singular form.
\<close>

theorem pluralTypeName_inherited_member:
  "spec_flattened (pluralTypeToLanguages defaultPluralRules) ''constructor'' = None
   \<and> langToTypeMap (pluralTypeToLanguages defaultPluralRules) ''constructor'' = None
   \<and> languageCode ''constructor'' = ''constructor''
   \<and> spec_resolveFamily (pluralTypeToLanguages defaultPluralRules) ''constructor''
       = Some ''german''
   \<and> pluralTypeName defaultPluralRules ''en'' = Str ''german''
   \<and> pluralTypeName defaultPluralRules ''constructor'' = Member ''constructor''
   \<and> pluralTypeIndex defaultPluralRules ''constructor'' 1 = Inl EngineTypeError
   \<and> transformPhrase (Str ''%{smart_count} Name |||| %{smart_count} Names'') (SNumber 1)
       (Some ''constructor'') None None = Inl EngineTypeError
   \<and> transformPhrase (Str ''%{smart_count} Name |||| %{smart_count} Names'') (SNumber 1)
       (Some ''en'') None None = Inr ''1 Name''"
  by code_simp

section \<open>Properties of the token matcher\<close>

text \<open>
  C4. \<^verbatim>\<open>constructTokenRegex\<close> throws its RangeError exactly when the prefix or the suffix it is
  given is the delimiter \<^verbatim>\<open>||||\<close>. For every other pair of strings, either of which may be left
  out and then has its default, it returns the expression for that pair; so it does when it is
  called without argument.
\<close>

theorem constructTokenRegex_reserved:
  "((\<exists>msg. constructTokenRegex (Some ob) = Inl (RangeError msg))
      = (ob ''prefix'' = Some (Str ''||||'') \<or> ob ''suffix'' = Some (Str ''||||'')))
   \<and> (ob ''prefix'' = map_option Str p \<and> ob ''suffix'' = map_option Str s
        \<and> p \<noteq> Some ''||||'' \<and> s \<noteq> Some ''||||''
      \<longrightarrow> constructTokenRegex (Some ob)
           = Inr (TokenRegex (case p of None \<Rightarrow> ''%{'' | Some x \<Rightarrow> x)
                             (case s of None \<Rightarrow> ''}'' | Some x \<Rightarrow> x)))
   \<and> constructTokenRegex None = Inr (TokenRegex ''%{'' ''}'')"
proof -
  have names: "''prefix'' \<notin> set objectPrototypeNames" "''suffix'' \<notin> set objectPrototypeNames"
    by (simp_all add: objectPrototypeNames_def)
  have a: "(\<exists>msg. constructTokenRegex (Some ob) = Inl (RangeError msg))
     = (ob ''prefix'' = Some (Str ''||||'') \<or> ob ''suffix'' = Some (Str ''||||''))"
    by (auto simp: constructTokenRegex_def Let_def getProp_def names delimiter_def
        split: option.splits jsval.splits)
  have b: "constructTokenRegex (Some ob)
          = Inr (TokenRegex (case p of None \<Rightarrow> ''%{'' | Some x \<Rightarrow> x)
                            (case s of None \<Rightarrow> ''}'' | Some x \<Rightarrow> x))"
    if "ob ''prefix'' = map_option Str p" "ob ''suffix'' = map_option Str s"
       "p \<noteq> Some ''||||''" "s \<noteq> Some ''||||''"
    using that
    by (cases p; cases s)
      (auto simp: constructTokenRegex_def Let_def getProp_def names delimiter_def)
  have c: "constructTokenRegex None = Inr (TokenRegex ''%{'' ''}'')"
    by (simp add: constructTokenRegex_def Let_def getProp_def names delimiter_def)
  from a b c show ?thesis by blast
qed

theorem constructTokenRegex_reserved_witness:
  "constructTokenRegex (Some [''prefix'' \<mapsto> Str ''{{'', ''suffix'' \<mapsto> Str ''}}''])
     = Inr (TokenRegex ''{{'' ''}}'')
   \<and> constructTokenRegex (Some [''suffix'' \<mapsto> Str ''|''])
     = Inr (TokenRegex ''%{'' ''|'')
   \<and> (\<exists>msg. constructTokenRegex (Some [''prefix'' \<mapsto> Str ''||||'', ''suffix'' \<mapsto> Str ''}}''])
         = Inl (RangeError msg))
   \<and> (\<exists>msg. constructTokenRegex (Some [''prefix'' \<mapsto> Str ''{{'', ''suffix'' \<mapsto> Str ''||||''])
         = Inl (RangeError msg))"
proof -
  have a: "constructTokenRegex (Some [''prefix'' \<mapsto> Str ''{{'', ''suffix'' \<mapsto> Str ''}}''])
     = Inr (TokenRegex ''{{'' ''}}'')"
    using constructTokenRegex_reserved
      [of "[''prefix'' \<mapsto> Str ''{{'', ''suffix'' \<mapsto> Str ''}}'']" "Some ''{{''" "Some ''}}''"]
    by simp
  have b: "constructTokenRegex (Some [''suffix'' \<mapsto> Str ''|'']) = Inr (TokenRegex ''%{'' ''|'')"
    using constructTokenRegex_reserved [of "[''suffix'' \<mapsto> Str ''|'']" None "Some ''|''"]
    by simp
  have c: "\<exists>msg. constructTokenRegex (Some [''prefix'' \<mapsto> Str ''||||'', ''suffix'' \<mapsto> Str ''}}''])
         = Inl (RangeError msg)"
    using constructTokenRegex_reserved
      [of "[''prefix'' \<mapsto> Str ''||||'', ''suffix'' \<mapsto> Str ''}}'']"]
    by simp
  have d: "\<exists>msg. constructTokenRegex (Some [''prefix'' \<mapsto> Str ''{{'', ''suffix'' \<mapsto> Str ''||||''])
         = Inl (RangeError msg)"
    using constructTokenRegex_reserved
      [of "[''prefix'' \<mapsto> Str ''{{'', ''suffix'' \<mapsto> Str ''||||'']"]
    by simp
  from a b c d show ?thesis by blast
qed

section \<open>Plural form selection in the phrase transformer\<close>

text \<open>
  C1. When the substitutions carry a number \<open>n\<close> under \<^verbatim>\<open>smart_count\<close> (a number passed
  directly, or an object with that property) and the rule set has a function \<open>f\<close> for the
  family that the locale resolves to, \<^verbatim>\<open>transformPhrase\<close> splits the string phrase at the
  delimiter \<^verbatim>\<open>||||\<close>, takes the form of index \<open>f n\<close> when that index is within the forms and
  the form there is not the empty string, and the first form otherwise, trims it, and
  interpolates the trimmed form. The first form is thus taken when the index is out of bounds
  and also when the form of that index is empty.
\<close>

theorem transformPhrase_plural_form:
  assumes "toOptions substitutions = Some options"
    and "getProp options ''smart_count'' = Num n"
    and "pluralTypes rules (toStr (pluralTypeName rules locale)) = Some f"
  shows "transformPhrase (Str p) substitutions (Some locale) (Some re) (Some rules)
     = Inr (replaceAll re options (trim
         (if 0 \<le> f n \<and> f n < int (length (jsSplit p)) \<and> jsSplit p ! nat (f n) \<noteq> []
          then jsSplit p ! nat (f n) else jsSplit p ! 0)))"
proof -
  from assms(3) have index: "pluralTypeIndex rules locale n = Inr (f n)"
    by (simp add: pluralTypeIndex_def)
  from assms(1) have "substitutions \<noteq> SUndefined"
    by (auto simp: toOptions_def)
  with assms(1,2) selectPluralForm_Num [OF index, of p] show ?thesis
    by (cases substitutions) (simp_all add: transformPhrase_def)
qed

theorem transformPhrase_plural_form_witness:
  "transformPhrase (Str ''%{smart_count} Name |||| %{smart_count} Names'') (SNumber 2)
     (Some ''en'') (Some defaultTokenRegex) (Some defaultPluralRules) = Inr ''2 Names''"
proof -
  let ?p = "''%{smart_count} Name |||| %{smart_count} Names''"
  have a: "toOptions (SNumber 2) = Some [''smart_count'' \<mapsto> Num 2]"
    by (simp add: toOptions_def)
  have b: "getProp [''smart_count'' \<mapsto> Num 2] ''smart_count'' = Num 2"
    by (simp add: getProp_def)
  have c: "pluralTypes defaultPluralRules (toStr (pluralTypeName defaultPluralRules ''en''))
      = Some germanPluralGroups"
    by (simp add: default_names toStr_def default_types)
  have d: "replaceAll defaultTokenRegex [''smart_count'' \<mapsto> Num 2] (trim
         (if 0 \<le> germanPluralGroups 2 \<and> germanPluralGroups 2 < int (length (jsSplit ?p))
             \<and> jsSplit ?p ! nat (germanPluralGroups 2) \<noteq> []
          then jsSplit ?p ! nat (germanPluralGroups 2) else jsSplit ?p ! 0)) = ''2 Names''"
    by code_simp
  show ?thesis
    using transformPhrase_plural_form [OF a b c, of ?p defaultTokenRegex]
    by (simp only: d)
qed

text \<open>The claim as it is written fails on a phrase with an empty form: \<^verbatim>\<open>'item||||'\<close> has the
  two forms \<^verbatim>\<open>'item'\<close> and \<^verbatim>\<open>''\<close>; for the count 2 the english index is 1, which is within
  bounds, and the result is the first form, not the form of index 1.\<close>

theorem transformPhrase_plural_form_counterexample:
  "jsSplit ''item||||'' = [''item'', '''']
   \<and> pluralTypeIndex defaultPluralRules ''en'' 2 = Inr 1
   \<and> transformPhrase (Str ''item||||'') (SNumber 2) (Some ''en'') None None = Inr ''item''
   \<and> replaceAll defaultTokenRegex [''smart_count'' \<mapsto> Num 2] (trim (jsSplit ''item||||'' ! 1))
       = ''''"
  by code_simp

text \<open>
  C8. When the phrase does not contain the delimiter, and the substitutions carry a number under
  \<^verbatim>\<open>smart_count\<close> (the rule set having a function for the family that the locale resolves to,
  whatever index it returns), the split has the phrase as its only form, the selection step
  trims the phrase, and the result is the interpolation of the trimmed phrase.
\<close>

theorem transformPhrase_single_form:
  assumes "\<forall>u v. p \<noteq> u @ delimiter @ v"
    and "toOptions substitutions = Some options"
    and "getProp options ''smart_count'' = Num n"
    and "pluralTypes rules (toStr (pluralTypeName rules locale)) = Some f"
  shows "jsSplit p = [p]
    \<and> selectPluralForm rules locale (Num n) p = Inr (trim p)
    \<and> transformPhrase (Str p) substitutions (Some locale) (Some re) (Some rules)
        = Inr (replaceAll re options (trim p))"
proof -
  have one: "jsSplit p = [p]"
    using splitFrom_no_delimiter [OF assms(1), of "[]"] by (simp add: jsSplit_def)
  from assms(4) have index: "pluralTypeIndex rules locale n = Inr (f n)"
    by (simp add: pluralTypeIndex_def)
  have sel: "selectPluralForm rules locale (Num n) p = Inr (trim p)"
    by (simp add: selectPluralForm_Num [OF index] one)
  from assms(2) have "substitutions \<noteq> SUndefined"
    by (auto simp: toOptions_def)
  with assms(2,3) sel
  have "transformPhrase (Str p) substitutions (Some locale) (Some re) (Some rules)
        = Inr (replaceAll re options (trim p))"
    by (cases substitutions) (simp_all add: transformPhrase_def)
  with one sel show ?thesis by simp
qed

lemma no_delimiter_without_bar: "CHR ''|'' \<notin> set p \<Longrightarrow> \<forall>u v. p \<noteq> u @ delimiter @ v"
proof (intro allI notI)
  fix u v
  assume "CHR ''|'' \<notin> set p" and "p = u @ delimiter @ v"
  then have "CHR ''|'' \<notin> set (u @ delimiter @ v)" by simp
  then show False by (simp add: delimiter_def)
qed

theorem transformPhrase_single_form_witness:
  "jsSplit '' Hello, %{name} '' = ['' Hello, %{name} '']
   \<and> transformPhrase (Str '' Hello, %{name} '')
       (SObject [''smart_count'' \<mapsto> Num 5, ''name'' \<mapsto> Str ''Spike''])
       (Some ''en'') (Some defaultTokenRegex) (Some defaultPluralRules) = Inr ''Hello, Spike''"
proof -
  let ?p = "'' Hello, %{name} ''"
  let ?ob = "[''smart_count'' \<mapsto> Num 5, ''name'' \<mapsto> Str ''Spike'']"
  have a: "\<forall>u v. ?p \<noteq> u @ delimiter @ v"
    by (rule no_delimiter_without_bar) simp
  have b: "toOptions (SObject ?ob) = Some ?ob"
    by (simp add: toOptions_def)
  have c: "getProp ?ob ''smart_count'' = Num 5"
    by (simp add: getProp_def)
  have d: "pluralTypes defaultPluralRules (toStr (pluralTypeName defaultPluralRules ''en''))
      = Some germanPluralGroups"
    by (simp add: default_names toStr_def default_types)
  have e: "replaceAll defaultTokenRegex ?ob (trim ?p) = ''Hello, Spike''"
    by code_simp
  show ?thesis
    using transformPhrase_single_form [OF a b c d, of defaultTokenRegex]
    by (simp only: e)
qed

text \<open>The claim as it is written fails on a phrase with white space at its ends: without any
  delimiter in the phrase, the result is not the interpolation of the phrase, which keeps the
  white space, but of the trimmed phrase.\<close>

theorem transformPhrase_single_form_counterexample:
  "(\<forall>u v. '' Hello, %{name} '' \<noteq> u @ delimiter @ v)
   \<and> transformPhrase (Str '' Hello, %{name} '')
       (SObject [''smart_count'' \<mapsto> Num 1, ''name'' \<mapsto> Str ''Spike'']) (Some ''en'') None None
      = Inr ''Hello, Spike''
   \<and> replaceAll defaultTokenRegex [''smart_count'' \<mapsto> Num 1, ''name'' \<mapsto> Str ''Spike'']
       '' Hello, %{name} '' = '' Hello, Spike ''"
proof -
  have "\<forall>u v. '' Hello, %{name} '' \<noteq> u @ delimiter @ v"
    by (rule no_delimiter_without_bar) simp
  moreover have "transformPhrase (Str '' Hello, %{name} '')
       (SObject [''smart_count'' \<mapsto> Num 1, ''name'' \<mapsto> Str ''Spike'']) (Some ''en'') None None
      = Inr ''Hello, Spike''"
    by code_simp
  moreover have "replaceAll defaultTokenRegex
       [''smart_count'' \<mapsto> Num 1, ''name'' \<mapsto> Str ''Spike''] '' Hello, %{name} ''
      = '' Hello, Spike ''"
    by code_simp
  ultimately show ?thesis by blast
qed

section \<open>Properties of the Polyglot class\<close>

text \<open>
  C9. When the phrases of an instance hold the empty string under a key, \<^verbatim>\<open>has(key)\<close> is
  false, while \<^verbatim>\<open>t(key)\<close> returns the empty string, the transformed phrase, and not the key,
  and nothing is passed to \<^verbatim>\<open>warn\<close>: \<^verbatim>\<open>has\<close> tests the truthiness of the phrase and \<^verbatim>\<open>t\<close>
  its type.
\<close>

theorem empty_phrase_has_and_t:
  assumes "phrases this key = Some (Str [])"
  shows "Polyglot_has this key = False \<and> Polyglot_t this key SUndefined = (Inr (Str []), [])"
proof -
  have g: "getProp (phrases this) key = Str []"
    using assms by (simp add: getProp_def)
  have sc: "getProp Map.empty ''smart_count'' = Undefined"
    by (simp add: getProp_def objectPrototypeNames_def)
  have "transformPhrase (Str []) (SObject Map.empty) (Some (currentLocale this))
         (Some (tokenRegex this)) (Some (pluralRules this)) = Inr []"
    by (simp add: transformPhrase_def toOptions_def sc selectPluralForm_def empty_replaceAll)
  then show ?thesis
    by (simp add: Polyglot_has_def Polyglot_t_def g truthy_def typeof_def)
qed

theorem empty_phrase_has_and_t_witness:
  "Polyglot_has \<lparr> phrases = [''hello'' \<mapsto> Str ''Hello'', ''empty_string'' \<mapsto> Str ''''],
        currentLocale = ''en'', onMissingKey = None, tokenRegex = defaultTokenRegex,
        pluralRules = defaultPluralRules \<rparr> ''empty_string'' = False
   \<and> Polyglot_t \<lparr> phrases = [''hello'' \<mapsto> Str ''Hello'', ''empty_string'' \<mapsto> Str ''''],
        currentLocale = ''en'', onMissingKey = None, tokenRegex = defaultTokenRegex,
        pluralRules = defaultPluralRules \<rparr> ''empty_string'' SUndefined = (Inr (Str ''''), [])"
  using empty_phrase_has_and_t
    [of "\<lparr> phrases = [''hello'' \<mapsto> Str ''Hello'', ''empty_string'' \<mapsto> Str ''''],
        currentLocale = ''en'', onMissingKey = None, tokenRegex = defaultTokenRegex,
        pluralRules = defaultPluralRules \<rparr>" "''empty_string''"]
  by simp

text \<open>
  C10. When the key is not among the phrases and the options object has under \<^verbatim>\<open>_\<close> a value
  that is defined and is not a string, \<^verbatim>\<open>t\<close> does not use that value: the result is the one of
  the missing-key handler, called with the key, the options, the locale, the token expression
  and the rule set, when the instance has a handler; otherwise the message is passed to
  \<^verbatim>\<open>warn\<close> and the result is the key.
\<close>

theorem default_phrase_not_a_string:
  assumes "phrases this key = None"
    and "ob ''_'' = Some v"
    and "v \<noteq> Undefined"
    and "typeof v \<noteq> ''string''"
  shows "Polyglot_t this key (SObject ob)
     = (case onMissingKey this of
          Some h \<Rightarrow>
            (h key (SObject ob) (currentLocale this) (tokenRegex this) (pluralRules this), [])
        | None \<Rightarrow>
            (Inr (Str key), [''Missing translation for key: '' @ CHR 0x22 # key @ [CHR 0x22]]))"
proof -
  have "typeof (getProp (phrases this) key) \<noteq> ''string''"
    using assms(1) by (simp add: getProp_def typeof_def)
  moreover have "defaultPhrase (SObject ob) = Inr v"
    using assms(2) by (simp add: defaultPhrase_def getProp_def)
  ultimately show ?thesis
    using assms(4) by (simp add: Polyglot_t_def split: option.splits)
qed

theorem default_phrase_not_a_string_witness:
  "Polyglot_t \<lparr> phrases = [''hello'' \<mapsto> Str ''Hello''], currentLocale = ''en'',
        onMissingKey = None, tokenRegex = defaultTokenRegex,
        pluralRules = defaultPluralRules \<rparr> ''bogus_key'' (SObject [''_'' \<mapsto> Num 32])
     = (Inr (Str ''bogus_key''), [''Missing translation for key: '' @ CHR 0x22 # ''bogus_key'' @ [CHR 0x22]])
   \<and> Polyglot_t \<lparr> phrases = [''hello'' \<mapsto> Str ''Hello''], currentLocale = ''en'',
        onMissingKey = Some (\<lambda>key options locale re rules. Inr (Str (''missing '' @ key))),
        tokenRegex = defaultTokenRegex,
        pluralRules = defaultPluralRules \<rparr> ''bogus_key'' (SObject [''_'' \<mapsto> Null])
     = (Inr (Str ''missing bogus_key''), [])
   \<and> Polyglot_t \<lparr> phrases = [''hello'' \<mapsto> Str ''Hello''], currentLocale = ''en'',
        onMissingKey = None, tokenRegex = defaultTokenRegex,
        pluralRules = defaultPluralRules \<rparr> ''bogus_key'' (SObject [''_'' \<mapsto> Object])
     = (Inr (Str ''bogus_key''), [''Missing translation for key: '' @ CHR 0x22 # ''bogus_key'' @ [CHR 0x22]])"
proof -
  have types: "typeof (Num 32) \<noteq> ''string''" "typeof Null \<noteq> ''string''"
    "typeof Object \<noteq> ''string''"
    by (simp_all add: typeof_def)
  show ?thesis
    using
      default_phrase_not_a_string
        [of "\<lparr> phrases = [''hello'' \<mapsto> Str ''Hello''], currentLocale = ''en'',
          onMissingKey = None, tokenRegex = defaultTokenRegex,
          pluralRules = defaultPluralRules \<rparr>" "''bogus_key''" "[''_'' \<mapsto> Num 32]" "Num 32"]
      default_phrase_not_a_string
        [of "\<lparr> phrases = [''hello'' \<mapsto> Str ''Hello''], currentLocale = ''en'',
          onMissingKey = Some (\<lambda>key options locale re rules. Inr (Str (''missing '' @ key))),
          tokenRegex = defaultTokenRegex,
          pluralRules = defaultPluralRules \<rparr>" "''bogus_key''" "[''_'' \<mapsto> Null]" Null]
      default_phrase_not_a_string
        [of "\<lparr> phrases = [''hello'' \<mapsto> Str ''Hello''], currentLocale = ''en'',
          onMissingKey = None, tokenRegex = defaultTokenRegex,
          pluralRules = defaultPluralRules \<rparr>" "''bogus_key''" "[''_'' \<mapsto> Object]" Object]
    by (simp add: types)
qed

end
